theory Spec2Isabelle
  imports Complex_Main "HOL-Library.Word" "HOL-Library.AList"
begin

section \<open>Errors\<close>

text \<open>
  The Python exceptions that the modelled code can raise. A function that can raise returns
  a value of type \<open>py_error + 'a\<close> (\<open>Inl\<close> the exception), or the state reached together with
  the exception where the state was changed before the raise.
\<close>

datatype py_error =
    AttributeError
  | IndexError
  | KeyError
  | UnboundLocalError
  | StructError
  | UnicodeEncodeError
  | UnicodeDecodeError
  | SystemExit

definition rbind :: "py_error + 'a \<Rightarrow> ('a \<Rightarrow> py_error + 'b) \<Rightarrow> py_error + 'b" where
  "rbind m f = (case m of Inl e \<Rightarrow> Inl e | Inr x \<Rightarrow> f x)"

section \<open>The live timer: \<open>PerfTimer.__init__\<close>, \<open>__enter__\<close>, \<open>__exit__\<close>, \<open>Note\<close>\<close>

text \<open>
  Clock readings (\<open>time.time()\<close>) and durations are modelled as exact real numbers.
  A thread is named by its \<open>ident\<close>, an integer.
\<close>

record timer =
  frame :: "int option"
  blockName :: string
  incstart :: real
  excstart :: real
  exclusive :: real
  inclusive :: real
  scopeName :: string
  threadId :: int

text \<open>
  The tuple appended to \<open>PerfTimer.perfQueue\<close>:
  \<open>(scopeName, inclusive, exclusive, threadId, frame, incstart, now)\<close>, fields 0 to 6.
\<close>

record completed_event =
  ev_scopeName :: string
  ev_inclusive :: real
  ev_exclusive :: real
  ev_threadId :: int
  ev_frame :: "int option"
  ev_start :: real
  ev_end :: real

text \<open>The tuple appended to \<open>PerfTimer.annotations\<close>: \<open>(txt, ident, frame, now)\<close>.\<close>

type_synonym annotation = "string \<times> int \<times> int option \<times> real"

text \<open>
  The module global \<open>_collecting\<close>, the class attributes \<open>perfQueue\<close> and \<open>annotations\<close>,
  and the thread-local \<open>perfStack\<close>: for each thread, its attribute \<open>stack\<close> is unset
  (\<open>None\<close>) or a list whose last element is the innermost open timer.
\<close>

record perf_state =
  collecting :: bool
  perfQueue :: "completed_event list"
  annotations :: "annotation list"
  perfStack :: "int \<Rightarrow> timer list option"


definition EnablePerfTracking :: "bool \<Rightarrow> perf_state \<Rightarrow> perf_state" where
  "EnablePerfTracking enable s = s\<lparr>collecting := enable\<rparr>"

definition DisablePerfTracking :: "perf_state \<Rightarrow> perf_state" where
  "DisablePerfTracking s = EnablePerfTracking False s"


text \<open>
  \<open>__enter__\<close> called on thread \<open>cur\<close> with clock reading \<open>now\<close>. The \<open>try\<close> block fails at
  \<open>stack[-1]\<close> when the attribute is unset (AttributeError) or the list is empty
  (IndexError); the bare \<open>except\<close> then starts a new stack. \<open>self\<close> is a timer that is not yet
  on the stack; it is stored on the stack with the fields \<open>__enter__\<close> sets.
\<close>

definition PerfTimer_enter :: "int \<Rightarrow> timer \<Rightarrow> real \<Rightarrow> perf_state \<Rightarrow> perf_state" where
  "PerfTimer_enter cur self now s =
     (if collecting s then
        (case perfStack s cur of
           None \<Rightarrow>
             s\<lparr>perfStack := (perfStack s)(cur := Some [self\<lparr>incstart := now, excstart := now\<rparr>])\<rparr>
         | Some stk \<Rightarrow>
             if stk = [] then
               s\<lparr>perfStack := (perfStack s)(cur := Some [self\<lparr>incstart := now, excstart := now\<rparr>])\<rparr>
             else
               let prev = last stk;
                   prev' = prev\<lparr>exclusive := exclusive prev + (now - excstart prev)\<rparr>;
                   self' = self\<lparr>scopeName := scopeName prev' @ ''::'' @ blockName self\<rparr>
               in s\<lparr>perfStack := (perfStack s)
                     (cur := Some (butlast stk @ [prev', self'\<lparr>incstart := now, excstart := now\<rparr>]))\<rparr>)
      else s)"

text \<open>
  \<open>__exit__\<close> called on thread \<open>cur\<close> with clock reading \<open>now\<close>. \<open>self\<close> is the timer whose
  \<open>with\<close> block ends (the value it has on the stack when it is the innermost one).
  The first \<open>try\<close> resets \<open>excstart\<close> of \<open>stack[-2]\<close> when there is one. The completed event is
  appended before \<open>stack.pop()\<close>, which raises when the attribute is unset or the list is
  empty: the state reached is returned together with the exception.
\<close>

definition PerfTimer_exit ::
  "int \<Rightarrow> timer \<Rightarrow> real \<Rightarrow> perf_state \<Rightarrow> perf_state \<times> py_error option" where
  "PerfTimer_exit cur self now s =
     (if collecting s then
        let stk1 = (case perfStack s cur of
                      None \<Rightarrow> None
                    | Some stk \<Rightarrow>
                        if 2 \<le> length stk then
                          Some (stk[length stk - 2 := (stk ! (length stk - 2))\<lparr>excstart := now\<rparr>])
                        else Some stk);
            self1 = self\<lparr>exclusive := exclusive self + (now - excstart self)\<rparr>;
            self2 = self1\<lparr>inclusive := now - incstart self1\<rparr>;
            q = perfQueue s @
                [\<lparr>ev_scopeName = scopeName self2, ev_inclusive = inclusive self2,
                  ev_exclusive = exclusive self2, ev_threadId = threadId self2,
                  ev_frame = frame self2, ev_start = incstart self2, ev_end = now\<rparr>]
        in (case stk1 of
              None \<Rightarrow> (s\<lparr>perfQueue := q\<rparr>, Some AttributeError)
            | Some stk \<Rightarrow>
                if stk = [] then (s\<lparr>perfQueue := q\<rparr>, Some IndexError)
                else (s\<lparr>perfQueue := q, perfStack := (perfStack s)(cur := Some (butlast stk))\<rparr>, None))
      else (s, None))"

definition PerfTimer_Note :: "int \<Rightarrow> string \<Rightarrow> int option \<Rightarrow> real \<Rightarrow> perf_state \<Rightarrow> perf_state" where
  "PerfTimer_Note cur txt fr now s =
     (if collecting s then s\<lparr>annotations := annotations s @ [(txt, cur, fr, now)]\<rparr> else s)"

subsection \<open>Regions entered and left by \<open>with PerfTimer(blockName, frame):\<close>\<close>






subsection \<open>Properly nested regions and what the design expects of them\<close>









subsection \<open>The invariant of the per-thread stacks\<close>

text \<open>
  With \<open>now\<close> a bound on the clock readings the thread has observed so far:
  a timer below the top has accumulated no more exclusive time than has passed since its
  entry; the innermost timer has accumulated no more than had passed when it last resumed.
\<close>

definition below :: "real \<Rightarrow> timer \<Rightarrow> bool" where
  "below now t \<longleftrightarrow> 0 \<le> exclusive t \<and> exclusive t \<le> now - incstart t"

definition top_ok :: "real \<Rightarrow> timer \<Rightarrow> bool" where
  "top_ok now t \<longleftrightarrow>
     0 \<le> exclusive t \<and> exclusive t \<le> excstart t - incstart t \<and> excstart t \<le> now"

definition stack_ok :: "real \<Rightarrow> timer list \<Rightarrow> bool" where
  "stack_ok now stk \<longleftrightarrow>
     (\<forall>t \<in> set (butlast stk). below now t) \<and> (stk \<noteq> [] \<longrightarrow> top_ok now (last stk))"



section \<open>Theorems\<close>

subsection \<open>The collection gate\<close>

text \<open>
  C7. When the collection gate is disabled (\<open>DisablePerfTracking\<close>, that is
  \<open>EnablePerfTracking(False)\<close>), \<open>__enter__\<close>, \<open>__exit__\<close> and \<open>Note\<close> do no work: the whole state,
  so the completed-event queue, the annotation queue and the calling thread's scope
  stack, is left unchanged, and \<open>__exit__\<close> raises nothing.
\<close>

theorem gate_disabled_noop:
  "PerfTimer_enter cur self now (DisablePerfTracking s) = DisablePerfTracking s \<and>
   PerfTimer_exit cur self now (DisablePerfTracking s) = (DisablePerfTracking s, None) \<and>
   PerfTimer_Note cur txt fr now (DisablePerfTracking s) = DisablePerfTracking s \<and>
   perfQueue (DisablePerfTracking s) = perfQueue s \<and>
   annotations (DisablePerfTracking s) = annotations s \<and>
   perfStack (DisablePerfTracking s) = perfStack s"
  by (simp add: PerfTimer_enter_def PerfTimer_exit_def PerfTimer_Note_def
      DisablePerfTracking_def EnablePerfTracking_def)

subsection \<open>Running regions on the live stack\<close>














lemma below_mono: "below t1 t \<Longrightarrow> t1 \<le> t2 \<Longrightarrow> below t2 t"
  by (simp add: below_def)

lemma top_ok_below: "top_ok t1 t \<Longrightarrow> t1 \<le> t2 \<Longrightarrow> below t2 t"
  by (simp add: below_def top_ok_def)

lemma top_ok_mono: "top_ok t1 t \<Longrightarrow> t1 \<le> t2 \<Longrightarrow> top_ok t2 t"
  by (simp add: top_ok_def)

lemma stack_ok_mono: "stack_ok t1 stk \<Longrightarrow> t1 \<le> t2 \<Longrightarrow> stack_ok t2 stk"
  unfolding stack_ok_def using below_mono top_ok_mono by blast









subsection \<open>Exclusive time never exceeds inclusive time\<close>



end
